theory Spec2Isabelle
  imports Main "HOL-Library.Word" "HOL-Library.AList"
begin

section \<open>JavaScript values, promises and objects\<close>

text \<open>
  The module \<^verbatim>\<open>webauthn.js\<close> is a chain of promise continuations around three external
  collaborators: an axios instance, the CBOR codec and the browser's credential API.
  Values are first-order data; binary buffers are lists of octets, tagged by the JavaScript
  class that carries them. Numbers are restricted to integers (the module only handles
  the four integer failure codes).
\<close>

type_synonym bytes = "8 word list"

datatype jsval =
    JUndefined
  | JNull
  | JBool bool
  | JNum int
  | JStr string
  | JArrayBuffer bytes
  | JUint8Array bytes
  | JBuffer bytes
  | JError string
  | JArr "jsval list"
  | JObj "(string \<times> jsval) list"

text \<open>
  A plain object is its list of own properties in insertion order; a property read is
  \<open>map_of\<close>. The object literal \<^verbatim>\<open>{...o, k: v}\<close> copies the properties of \<open>o\<close> and
  then defines \<open>k\<close>: an existing property keeps its place and takes the new value, a new
  one is appended.
\<close>

type_synonym jsobj = "(string \<times> jsval) list"

definition obj_define :: "string \<Rightarrow> jsval \<Rightarrow> jsobj \<Rightarrow> jsobj" where
  "obj_define k v obj = AList.update k v obj"

text \<open>
  The state a promise ends in. \<open>Pending\<close> is a promise that never settles (the module sets
  no timeout). A callback's result is given the same type: \<open>Fulfilled v\<close> is a callback
  that returns \<open>v\<close> or a promise fulfilled with \<open>v\<close>, \<open>Rejected e\<close> one that throws \<open>e\<close> or
  returns a promise rejected with \<open>e\<close>; a continuation treats the two alike.
\<close>

datatype 'a promise = Fulfilled 'a | Rejected jsval | Pending

section \<open>HTTP messages and the external libraries\<close>

text \<open>
  An axios request configuration and an axios response both carry \<open>headers\<close> and \<open>data\<close>;
  the fields the module never touches are the extension part of the record
  (\<open>http_method\<close> is the field \<^verbatim>\<open>method\<close> of the request configuration).
\<close>

record message =
  headers :: jsobj
  data :: jsval

record request = message +
  url :: string
  http_method :: string
  responseType :: jsval

record response = message +
  status :: int

text \<open>
  The imports of the module, taken as parameters: \<^verbatim>\<open>encodeAsync\<close> and \<^verbatim>\<open>decodeAll\<close> of the
  package \<^verbatim>\<open>cbor\<close> (both return promises; \<^verbatim>\<open>encodeAsync\<close> resolves to a Buffer,
  \<^verbatim>\<open>decodeAll\<close> to the array of all items found in its input) and \<^verbatim>\<open>Buffer.from\<close> of the
  package \<^verbatim>\<open>buffer\<close> (synchronous; \<open>Inl\<close> is the exception it throws).
\<close>

record codec =
  encodeAsync :: "jsval \<Rightarrow> bytes promise"
  decodeAll :: "bytes \<Rightarrow> jsval list promise"
  Buffer_from :: "jsval \<Rightarrow> jsval + bytes"

section \<open>The interceptors\<close>

text \<open>
  \<^verbatim>\<open>
  export const cborRequestInterceptor = async function (request) {
    if (request.headers['content-type'] === 'application/cbor') {
      request.data = await encodeAsync(request.data);
      request.responseType = "arraybuffer"
      return request;
    }
    return request;
  };
  \<close>
  An async function returns a promise; an exception or a rejected \<^verbatim>\<open>await\<close> rejects it.
\<close>

definition cborRequestInterceptor ::
  "codec \<Rightarrow> 'a request_scheme \<Rightarrow> 'a request_scheme promise" where
  "cborRequestInterceptor lib req =
     (if map_of (headers req) ''content-type'' = Some (JStr ''application/cbor'') then
        (case encodeAsync lib (data req) of
           Fulfilled b \<Rightarrow>
             Fulfilled (req\<lparr>data := JBuffer b, responseType := JStr ''arraybuffer''\<rparr>)
         | Rejected e \<Rightarrow> Rejected e
         | Pending \<Rightarrow> Pending)
      else Fulfilled req)"

text \<open>
  \<^verbatim>\<open>
  export const cborResponseInterceptor = async function (response) {
    if (response.headers['content-type'] === 'application/cbor') {
      const [data] = await decodeAll(Buffer.from(response.data));
      response.data = data;
      return response;
    }
    return response;
  };
  \<close>
  The pattern \<^verbatim>\<open>const [data] = items\<close> binds the first element of the array, and
  \<^verbatim>\<open>undefined\<close> when the array is empty.
\<close>

fun first_item :: "jsval list \<Rightarrow> jsval" where
  "first_item [] = JUndefined"
| "first_item (x # xs) = x"

definition cborResponseInterceptor ::
  "codec \<Rightarrow> 'a response_scheme \<Rightarrow> 'a response_scheme promise" where
  "cborResponseInterceptor lib resp =
     (if map_of (headers resp) ''content-type'' = Some (JStr ''application/cbor'') then
        (case Buffer_from lib (data resp) of
           Inl e \<Rightarrow> Rejected e
         | Inr buf \<Rightarrow>
             (case decodeAll lib buf of
                Fulfilled items \<Rightarrow> Fulfilled (resp\<lparr>data := first_item items\<rparr>)
              | Rejected e \<Rightarrow> Rejected e
              | Pending \<Rightarrow> Pending))
      else Fulfilled resp)"

section \<open>The ceremony\<close>

text \<open>
  What an observer of one ceremony sees, in order: the requests posted, the calls of the
  three callbacks with their arguments, and a rejection that no handler took. Console
  output is not recorded.
\<close>

datatype event =
    Post string jsobj
  | FailureCallback jsval int
  | CredentialsCallback jsval
  | SuccessCallback response
  | UnhandledRejection jsval

text \<open>
  The axios instance \<^verbatim>\<open>ax\<close>: \<open>post ax n u d\<close> is the promise returned by \<^verbatim>\<open>ax.post(u, d)\<close>
  when \<open>n\<close> requests were posted before it in this ceremony, so that the server may answer
  the same request differently the second time.
\<close>

record transport =
  post :: "nat \<Rightarrow> string \<Rightarrow> jsobj \<Rightarrow> response promise"

text \<open>
  \<^verbatim>\<open>p.then(f)\<close> runs \<open>f\<close> on the value of a fulfilled \<open>p\<close> and settles as \<open>f\<close> does; a
  rejection passes through. \<^verbatim>\<open>p.catch(g)\<close> runs \<open>g\<close> on the reason of a rejected \<open>p\<close> and
  settles as \<open>g\<close> does, so a \<open>g\<close> that returns normally yields a fulfilled promise; a
  fulfilment passes through. Handlers take and return the events so far.
\<close>

definition promise_then ::
  "'a promise \<times> event list \<Rightarrow> ('a \<Rightarrow> event list \<Rightarrow> 'b promise \<times> event list)
     \<Rightarrow> 'b promise \<times> event list" where
  "promise_then pt f =
     (case pt of
        (Fulfilled v, tr) \<Rightarrow> f v tr
      | (Rejected e, tr) \<Rightarrow> (Rejected e, tr)
      | (Pending, tr) \<Rightarrow> (Pending, tr))"

definition promise_catch ::
  "'a promise \<times> event list \<Rightarrow> (jsval \<Rightarrow> event list \<Rightarrow> 'a promise \<times> event list)
     \<Rightarrow> 'a promise \<times> event list" where
  "promise_catch pt g =
     (case pt of
        (Fulfilled v, tr) \<Rightarrow> (Fulfilled v, tr)
      | (Rejected e, tr) \<Rightarrow> g e tr
      | (Pending, tr) \<Rightarrow> (Pending, tr))"

text \<open>A promise that is dropped while rejected is reported by the runtime.\<close>

definition discard :: "'a promise \<times> event list \<Rightarrow> event list" where
  "discard pt =
     (case pt of
        (Rejected e, tr) \<Rightarrow> tr @ [UnhandledRejection e]
      | (_, tr) \<Rightarrow> tr)"

text \<open>
  The result of a call: the value the JavaScript function returns to its caller, and the
  events of the ceremony it started.
\<close>

record ceremony =
  returned :: jsval
  trace :: "event list"

text \<open>
  \<^verbatim>\<open>
  export const webauthn_internal = (payload, success_callback, failure_callback,
                  credentials_callback, complete_context_callback, beginurl,
                  completeurl, begin_failure_code, complete_failure_code, ax) => {
      console.log('webauthn:', {'begin': beginurl, 'complete': completeurl});
      ax.post(beginurl, payload)
        .then(res => res.data)
        .catch(error => failure_callback(error, begin_failure_code))
        .then(opts => credentials_callback(opts))
        .then(auth => {
          ax.post(completeurl, complete_context_callback(payload, auth))
            .then(res => success_callback(res))
            .catch(error => failure_callback(error, complete_failure_code));
        });
  };
  \<close>
  The arrow function has a block body without a \<^verbatim>\<open>return\<close> statement, and so has the
  last continuation: the call returns \<^verbatim>\<open>undefined\<close>, and the outer chain does not wait for
  the inner one. \<open>complete_context_callback\<close> is synchronous (\<open>Inl\<close> is what it throws).
\<close>

definition complete_step ::
  "jsobj \<Rightarrow> (response \<Rightarrow> jsval promise) \<Rightarrow> (jsval \<Rightarrow> int \<Rightarrow> jsval promise)
     \<Rightarrow> (jsobj \<Rightarrow> 'cred \<Rightarrow> jsval + jsobj) \<Rightarrow> string \<Rightarrow> int \<Rightarrow> transport
     \<Rightarrow> 'cred \<Rightarrow> event list \<Rightarrow> jsval promise \<times> event list" where
  "complete_step payload success_callback failure_callback complete_context_callback
       completeurl complete_failure_code ax auth tr =
     (case complete_context_callback payload auth of
        Inl e \<Rightarrow> (Rejected e, tr)
      | Inr complete_payload \<Rightarrow>
          (let q0 = (post ax 1 completeurl complete_payload,
                     tr @ [Post completeurl complete_payload]);
               q1 = promise_then q0
                      (\<lambda>res tr. (success_callback res, tr @ [SuccessCallback res]));
               q2 = promise_catch q1
                      (\<lambda>error tr. (failure_callback error complete_failure_code,
                                    tr @ [FailureCallback error complete_failure_code]))
           in (Fulfilled JUndefined, discard q2)))"

definition webauthn_internal ::
  "jsobj \<Rightarrow> (response \<Rightarrow> jsval promise) \<Rightarrow> (jsval \<Rightarrow> int \<Rightarrow> jsval promise)
     \<Rightarrow> (jsval \<Rightarrow> 'cred promise) \<Rightarrow> (jsobj \<Rightarrow> 'cred \<Rightarrow> jsval + jsobj)
     \<Rightarrow> string \<Rightarrow> string \<Rightarrow> int \<Rightarrow> int \<Rightarrow> transport \<Rightarrow> ceremony" where
  "webauthn_internal payload success_callback failure_callback credentials_callback
       complete_context_callback beginurl completeurl begin_failure_code
       complete_failure_code ax =
     (let p0 = (post ax 0 beginurl payload, [Post beginurl payload]);
          p1 = promise_then p0 (\<lambda>res tr. (Fulfilled (data res), tr));
          p2 = promise_catch p1
                 (\<lambda>error tr. (failure_callback error begin_failure_code,
                               tr @ [FailureCallback error begin_failure_code]));
          p3 = promise_then p2
                 (\<lambda>opts tr. (credentials_callback opts, tr @ [CredentialsCallback opts]));
          p4 = promise_then p3
                 (complete_step payload success_callback failure_callback
                    complete_context_callback completeurl complete_failure_code ax)
      in \<lparr>returned = JUndefined, trace = discard p4\<rparr>)"

section \<open>Login and registration\<close>

definition WEBAUTHN_REGISTER_FAIL_BEGIN :: int where
  "WEBAUTHN_REGISTER_FAIL_BEGIN = 1"

definition WEBAUTHN_REGISTER_FAIL_COMPLETE :: int where
  "WEBAUTHN_REGISTER_FAIL_COMPLETE = 2"

definition WEBAUTHN_LOGIN_FAIL_BEGIN :: int where
  "WEBAUTHN_LOGIN_FAIL_BEGIN = 3"

definition WEBAUTHN_LOGIN_FAIL_COMPLETE :: int where
  "WEBAUTHN_LOGIN_FAIL_COMPLETE = 4"

text \<open>
  The credential the browser hands back (Web Authentication IDL): a
  \<^verbatim>\<open>PublicKeyCredential\<close> with its \<^verbatim>\<open>rawId\<close> and a \<^verbatim>\<open>response\<close> that is an
  \<^verbatim>\<open>AuthenticatorAttestationResponse\<close> after \<^verbatim>\<open>create\<close> and an
  \<^verbatim>\<open>AuthenticatorAssertionResponse\<close> after \<^verbatim>\<open>get\<close>; every member is an ArrayBuffer. Both
  calls may resolve to \<^verbatim>\<open>null\<close>, which is \<open>None\<close>.
\<close>

record authenticator_response =
  clientDataJSON :: bytes

record attestation_response = authenticator_response +
  attestationObject :: bytes

record assertion_response = authenticator_response +
  authenticatorData :: bytes
  signature :: bytes

record 'r public_key_credential =
  rawId :: bytes
  response :: 'r

type_synonym attestation = "attestation_response public_key_credential"
type_synonym assertion = "assertion_response public_key_credential"

text \<open>
  The globals the two wrappers reach for: \<^verbatim>\<open>navigator.credentials\<close> and the module's own
  axios instance \<^verbatim>\<open>axios_cbor\<close>, the default of the parameter \<^verbatim>\<open>ax\<close>.
\<close>

record globals =
  navigator_credentials_get :: "jsval \<Rightarrow> assertion option promise"
  navigator_credentials_create :: "jsval \<Rightarrow> attestation option promise"
  axios_cbor :: transport

text \<open>Reading a property of \<^verbatim>\<open>null\<close> throws a TypeError.\<close>

definition login_complete_payload_callback ::
  "jsobj \<Rightarrow> assertion option \<Rightarrow> jsval + jsobj" where
  "login_complete_payload_callback payload assertion =
     (case assertion of
        None \<Rightarrow> Inl (JError ''TypeError'')
      | Some a \<Rightarrow>
          Inr (obj_define ''signature'' (JUint8Array (signature (response a)))
              (obj_define ''clientDataJSON'' (JUint8Array (clientDataJSON (response a)))
              (obj_define ''authenticatorData'' (JUint8Array (authenticatorData (response a)))
              (obj_define ''credentialId'' (JUint8Array (rawId a)) payload)))))"

definition register_complete_payload_callback ::
  "jsobj \<Rightarrow> attestation option \<Rightarrow> jsval + jsobj" where
  "register_complete_payload_callback payload attestation =
     (case attestation of
        None \<Rightarrow> Inl (JError ''TypeError'')
      | Some a \<Rightarrow>
          Inr (obj_define ''clientDataJSON'' (JUint8Array (clientDataJSON (response a)))
              (obj_define ''attestationObject'' (JUint8Array (attestationObject (response a)))
                 payload)))"

text \<open>
  The default of \<^verbatim>\<open>failure_callback\<close> writes to the console; \<^verbatim>\<open>console.log\<close> returns
  \<^verbatim>\<open>undefined\<close>.
\<close>

definition default_failure_callback :: "jsval \<Rightarrow> int \<Rightarrow> jsval promise" where
  "default_failure_callback error code = Fulfilled JUndefined"

text \<open>
  \<^verbatim>\<open>
  export const webauthn_login = (payload, success_callback,
                  failure_callback = (error, code) =>
                      console.log("webauthn-login failed:", code, error),
                  beginurl = '/api/auth/login/begin/',
                  completeurl = '/api/auth/login/',
                  ax = axios_cbor) => {
      const credentials_callback = (opts) => navigator.credentials.get(opts);
      const complete_payload_callback = (payload, assertion) => { ... };
      return webauthn_internal(payload, success_callback, failure_callback,
                      credentials_callback, complete_payload_callback, beginurl, completeurl,
                      WEBAUTHN_LOGIN_FAIL_BEGIN, WEBAUTHN_LOGIN_FAIL_COMPLETE, ax);
  };
  \<close>
  An argument left out (or \<^verbatim>\<open>undefined\<close>) is \<open>None\<close> and takes its default.
\<close>

definition webauthn_login ::
  "globals \<Rightarrow> jsobj \<Rightarrow> (response \<Rightarrow> jsval promise)
     \<Rightarrow> (jsval \<Rightarrow> int \<Rightarrow> jsval promise) option \<Rightarrow> string option \<Rightarrow> string option
     \<Rightarrow> transport option \<Rightarrow> ceremony" where
  "webauthn_login g payload success_callback failure_callback beginurl completeurl ax =
     webauthn_internal payload success_callback
       (case failure_callback of None \<Rightarrow> default_failure_callback | Some f \<Rightarrow> f)
       (\<lambda>opts. navigator_credentials_get g opts)
       login_complete_payload_callback
       (case beginurl of None \<Rightarrow> ''/api/auth/login/begin/'' | Some u \<Rightarrow> u)
       (case completeurl of None \<Rightarrow> ''/api/auth/login/'' | Some u \<Rightarrow> u)
       WEBAUTHN_LOGIN_FAIL_BEGIN WEBAUTHN_LOGIN_FAIL_COMPLETE
       (case ax of None \<Rightarrow> axios_cbor g | Some a \<Rightarrow> a)"

definition webauthn_register ::
  "globals \<Rightarrow> jsobj \<Rightarrow> (response \<Rightarrow> jsval promise)
     \<Rightarrow> (jsval \<Rightarrow> int \<Rightarrow> jsval promise) option \<Rightarrow> string option \<Rightarrow> string option
     \<Rightarrow> transport option \<Rightarrow> ceremony" where
  "webauthn_register g payload success_callback failure_callback beginurl completeurl ax =
     webauthn_internal payload success_callback
       (case failure_callback of None \<Rightarrow> default_failure_callback | Some f \<Rightarrow> f)
       (\<lambda>opts. navigator_credentials_create g opts)
       register_complete_payload_callback
       (case beginurl of None \<Rightarrow> ''/api/auth/register/begin/'' | Some u \<Rightarrow> u)
       (case completeurl of None \<Rightarrow> ''/api/auth/register/'' | Some u \<Rightarrow> u)
       WEBAUTHN_REGISTER_FAIL_BEGIN WEBAUTHN_REGISTER_FAIL_COMPLETE
       (case ax of None \<Rightarrow> axios_cbor g | Some a \<Rightarrow> a)"

section \<open>Reading a trace\<close>

fun failure_calls :: "event list \<Rightarrow> (jsval \<times> int) list" where
  "failure_calls [] = []"
| "failure_calls (FailureCallback e c # tr) = (e, c) # failure_calls tr"
| "failure_calls (_ # tr) = failure_calls tr"

fun success_calls :: "event list \<Rightarrow> response list" where
  "success_calls [] = []"
| "success_calls (SuccessCallback r # tr) = r # success_calls tr"
| "success_calls (_ # tr) = success_calls tr"

fun credentials_calls :: "event list \<Rightarrow> jsval list" where
  "credentials_calls [] = []"
| "credentials_calls (CredentialsCallback opts # tr) = opts # credentials_calls tr"
| "credentials_calls (_ # tr) = credentials_calls tr"

fun unhandled_rejections :: "event list \<Rightarrow> jsval list" where
  "unhandled_rejections [] = []"
| "unhandled_rejections (UnhandledRejection e # tr) = e # unhandled_rejections tr"
| "unhandled_rejections (_ # tr) = unhandled_rejections tr"

section \<open>Concrete scenarios\<close>

text \<open>
  The inputs at which the theorems below are evaluated: a registration or login for
  \<^verbatim>\<open>{username: "alice"}\<close>, a server whose two answers are given, and a browser that
  serves the challenge of that server and refuses any other options.
\<close>

definition ex_payload :: jsobj where
  "ex_payload = [(''username'', JStr ''alice'')]"

definition ex_options :: jsval where
  "ex_options = JObj [(''publicKey'', JObj [(''challenge'', JBuffer [1, 2, 3])])]"

definition ex_begin_response :: response where
  "ex_begin_response =
     \<lparr>headers = [(''content-type'', JStr ''application/cbor'')], data = ex_options,
      status = 200\<rparr>"

definition ex_complete_response :: response where
  "ex_complete_response =
     \<lparr>headers = [(''content-type'', JStr ''application/cbor'')],
      data = JObj [(''status'', JStr ''OK'')], status = 200\<rparr>"

definition ex_http_error :: jsval where
  "ex_http_error = JError ''Request failed with status code 400''"

definition ex_attestation :: attestation where
  "ex_attestation =
     \<lparr>rawId = [7], response = \<lparr>clientDataJSON = [4, 5], attestationObject = [6]\<rparr>\<rparr>"

definition ex_assertion :: assertion where
  "ex_assertion =
     \<lparr>rawId = [7],
      response = \<lparr>clientDataJSON = [4, 5], authenticatorData = [8], signature = [9, 10]\<rparr>\<rparr>"

definition ex_transport :: "response promise \<Rightarrow> response promise \<Rightarrow> transport" where
  "ex_transport first second = \<lparr>post = (\<lambda>n u d. if n = 0 then first else second)\<rparr>"

definition ex_globals :: "transport \<Rightarrow> globals" where
  "ex_globals ax =
     \<lparr>navigator_credentials_get =
        (\<lambda>opts. if opts = ex_options then Fulfilled (Some ex_assertion)
                 else Rejected (JError ''NotSupportedError'')),
      navigator_credentials_create =
        (\<lambda>opts. if opts = ex_options then Fulfilled (Some ex_attestation)
                 else Rejected (JError ''NotSupportedError'')),
      axios_cbor = ax\<rparr>"

definition ex_user_cancels :: "jsval \<Rightarrow> assertion option promise" where
  "ex_user_cancels opts = Rejected (JError ''NotAllowedError'')"

definition ex_success :: "response \<Rightarrow> jsval promise" where
  "ex_success res = Fulfilled JUndefined"

definition ex_success_throws :: "response \<Rightarrow> jsval promise" where
  "ex_success_throws res = Rejected (JError ''TypeError'')"

definition ex_failure :: "jsval \<Rightarrow> int \<Rightarrow> jsval promise" where
  "ex_failure error code = Fulfilled JUndefined"

text \<open>
  A codec for the evaluations: CBOR on the integers 0 to 23, each of which is its own
  one-octet encoding, and \<^verbatim>\<open>Buffer.from\<close> on the three kinds of binary buffer.
\<close>

definition ex_codec :: codec where
  "ex_codec =
     \<lparr>encodeAsync =
        (\<lambda>v. case v of
                JNum n \<Rightarrow> if 0 \<le> n \<and> n < 24 then Fulfilled [word_of_int n]
                          else Rejected (JError ''unsupported'')
              | _ \<Rightarrow> Rejected (JError ''unsupported'')),
      decodeAll =
        (\<lambda>bs. if list_all (\<lambda>w. w < 24) bs then Fulfilled (map (\<lambda>w. JNum (uint w)) bs)
               else Rejected (JError ''unsupported'')),
      Buffer_from =
        (\<lambda>v. case v of
                JArrayBuffer b \<Rightarrow> Inr b
              | JUint8Array b \<Rightarrow> Inr b
              | JBuffer b \<Rightarrow> Inr b
              | _ \<Rightarrow> Inl (JError ''TypeError''))\<rparr>"

definition ex_cbor_request :: request where
  "ex_cbor_request =
     \<lparr>headers = [(''content-type'', JStr ''application/cbor'')], data = JNum 5,
      url = ''/api/auth/login/begin/'', http_method = ''POST'', responseType = JUndefined\<rparr>"

definition ex_json_request :: request where
  "ex_json_request =
     \<lparr>headers = [(''content-type'', JStr ''application/json'')], data = JNum 5,
      url = ''/api/auth/login/begin/'', http_method = ''POST'', responseType = JUndefined\<rparr>"

definition ex_cbor_response :: "bytes \<Rightarrow> response" where
  "ex_cbor_response body =
     \<lparr>headers = [(''content-type'', JStr ''application/cbor'')], data = JArrayBuffer body,
      status = 200\<rparr>"

definition ex_json_response :: response where
  "ex_json_response =
     \<lparr>headers = [(''content-type'', JStr ''application/json'')], data = JStr ''{}'',
      status = 200\<rparr>"

definition ex_server_ok :: transport where
  "ex_server_ok = ex_transport (Fulfilled ex_begin_response) (Fulfilled ex_complete_response)"

definition ex_complete_fails :: transport where
  "ex_complete_fails = ex_transport (Fulfilled ex_begin_response) (Rejected ex_http_error)"

definition ex_login_complete_payload :: jsobj where
  "ex_login_complete_payload =
     [(''username'', JStr ''alice''), (''credentialId'', JUint8Array [7]),
      (''authenticatorData'', JUint8Array [8]), (''clientDataJSON'', JUint8Array [4, 5]),
      (''signature'', JUint8Array [9, 10])]"

definition ex_register_complete_payload :: jsobj where
  "ex_register_complete_payload =
     [(''username'', JStr ''alice''), (''attestationObject'', JUint8Array [6]),
      (''clientDataJSON'', JUint8Array [4, 5])]"




section \<open>Properties\<close>

lemmas ceremony_defs =
  webauthn_internal_def complete_step_def promise_then_def promise_catch_def discard_def

lemma keys_obj_define: "fst ` set (obj_define k v obj) = insert k (fst ` set obj)"
  by (simp add: obj_define_def AList.dom_update)

lemma map_of_obj_define:
  "map_of (obj_define k v obj) k' = (if k' = k then Some v else map_of obj k')"
  by (simp add: obj_define_def AList.update_conv')

subsection \<open>The ceremony\<close>

lemma credentials_calls_append:
  "credentials_calls (tr @ tr') = credentials_calls tr @ credentials_calls tr'"
  by (induction tr rule: credentials_calls.induct) simp_all

lemma credentials_calls_complete_step:
  "credentials_calls (snd (complete_step payload success_callback failure_callback
      complete_context_callback completeurl complete_failure_code ax auth tr))
   = credentials_calls tr"
  by (simp add: complete_step_def promise_then_def promise_catch_def discard_def
      credentials_calls_append split: sum.splits promise.splits)

text \<open>
  Claim C1 says that a rejected begin request ends the ceremony: \<open>failure_callback\<close> once,
  with the begin code, and no call of the credential capability. The handler of the begin
  failure sits in the middle of the chain, so when \<open>failure_callback\<close> returns, its result
  (\<^verbatim>\<open>undefined\<close>) is what the next continuation hands to \<open>credentials_callback\<close>. Here the
  registration of alice meets a begin endpoint that answers 400: the failure is reported
  with \<open>WEBAUTHN_REGISTER_FAIL_BEGIN\<close>, and then \<^verbatim>\<open>navigator.credentials.create(undefined)\<close>
  is called all the same; its rejection is left unhandled.
\<close>

theorem begin_failure_still_calls_credentials:
  "post (ex_transport (Rejected ex_http_error) Pending) 0 ''/api/auth/register/begin/''
      ex_payload = Rejected ex_http_error
   \<and> trace (webauthn_register (ex_globals (ex_transport (Rejected ex_http_error) Pending))
              ex_payload ex_success (Some ex_failure) None None None)
       = [Post ''/api/auth/register/begin/'' ex_payload,
          FailureCallback ex_http_error WEBAUTHN_REGISTER_FAIL_BEGIN,
          CredentialsCallback JUndefined,
          UnhandledRejection (JError ''NotSupportedError'')]
   \<and> credentials_calls (trace (webauthn_register
              (ex_globals (ex_transport (Rejected ex_http_error) Pending))
              ex_payload ex_success (Some ex_failure) None None None)) = [JUndefined]"
  by (simp add: ceremony_defs webauthn_register_def ex_globals_def ex_transport_def
      ex_options_def ex_failure_def)

text \<open>
  The same for every input: whenever the begin request is rejected and \<open>failure_callback\<close>
  returns a value \<open>v\<close>, \<open>credentials_callback\<close> is called, once, with \<open>v\<close>.
\<close>

lemma begin_failure_continues:
  assumes "post ax 0 beginurl payload = Rejected e"
    and "failure_callback e begin_failure_code = Fulfilled v"
  shows "credentials_calls (trace (webauthn_internal payload success_callback
            failure_callback credentials_callback complete_context_callback beginurl
            completeurl begin_failure_code complete_failure_code ax)) = [v]"
proof (cases "credentials_callback v")
  case (Fulfilled auth)
  obtain p tr where step: "complete_step payload success_callback failure_callback
      complete_context_callback completeurl complete_failure_code ax auth
      [Post beginurl payload, FailureCallback e begin_failure_code, CredentialsCallback v]
      = (p, tr)"
    by (cases "complete_step payload success_callback failure_callback
      complete_context_callback completeurl complete_failure_code ax auth
      [Post beginurl payload, FailureCallback e begin_failure_code, CredentialsCallback v]")
  from credentials_calls_complete_step [of payload success_callback failure_callback
      complete_context_callback completeurl complete_failure_code ax auth
      "[Post beginurl payload, FailureCallback e begin_failure_code, CredentialsCallback v]"]
    step
  have "credentials_calls tr = [v]" by simp
  with assms Fulfilled step show ?thesis
    by (cases p)
      (simp_all add: webauthn_internal_def promise_then_def promise_catch_def discard_def
        credentials_calls_append)
next
  case (Rejected r)
  with assms show ?thesis
    by (simp add: webauthn_internal_def promise_then_def promise_catch_def discard_def)
next
  case Pending
  with assms show ?thesis
    by (simp add: webauthn_internal_def promise_then_def promise_catch_def discard_def)
qed


text \<open>
  Claim C2: when the begin request succeeds and the credential capability rejects (or
  throws), nothing turns that rejection into a call of \<open>failure_callback\<close>. The ceremony
  consists of the begin request and the call of the capability; neither callback is
  called, no complete request is posted, and the rejection is the one unhandled rejection
  the chain is left with.
\<close>

theorem credential_rejection_never_reported:
  assumes "post ax 0 beginurl payload = Fulfilled res"
    and "credentials_callback (data res) = Rejected e"
  shows "trace (webauthn_internal payload success_callback failure_callback
                  credentials_callback complete_context_callback beginurl completeurl
                  begin_failure_code complete_failure_code ax)
           = [Post beginurl payload, CredentialsCallback (data res), UnhandledRejection e]
       \<and> failure_calls (trace (webauthn_internal payload success_callback failure_callback
                  credentials_callback complete_context_callback beginurl completeurl
                  begin_failure_code complete_failure_code ax)) = []
       \<and> unhandled_rejections (trace (webauthn_internal payload success_callback
                  failure_callback credentials_callback complete_context_callback beginurl
                  completeurl begin_failure_code complete_failure_code ax)) = [e]"
  using assms by (simp add: ceremony_defs)

theorem credential_rejection_never_reported_witness:
  "post (ex_transport (Fulfilled ex_begin_response) Pending) 0 ''/login/begin/'' ex_payload
     = Fulfilled ex_begin_response
   \<and> ex_user_cancels (data ex_begin_response) = Rejected (JError ''NotAllowedError'')
   \<and> trace (webauthn_internal ex_payload ex_success ex_failure ex_user_cancels
              login_complete_payload_callback ''/login/begin/'' ''/login/''
              WEBAUTHN_LOGIN_FAIL_BEGIN WEBAUTHN_LOGIN_FAIL_COMPLETE
              (ex_transport (Fulfilled ex_begin_response) Pending))
       = [Post ''/login/begin/'' ex_payload, CredentialsCallback ex_options,
          UnhandledRejection (JError ''NotAllowedError'')]
   \<and> failure_calls (trace (webauthn_internal ex_payload ex_success ex_failure
              ex_user_cancels login_complete_payload_callback ''/login/begin/'' ''/login/''
              WEBAUTHN_LOGIN_FAIL_BEGIN WEBAUTHN_LOGIN_FAIL_COMPLETE
              (ex_transport (Fulfilled ex_begin_response) Pending))) = []"
proof -
  have h1: "post (ex_transport (Fulfilled ex_begin_response) Pending) 0 ''/login/begin/''
      ex_payload = Fulfilled ex_begin_response"
    by (simp add: ex_transport_def)
  have h2: "ex_user_cancels (data ex_begin_response) = Rejected (JError ''NotAllowedError'')"
    by (simp add: ex_user_cancels_def)
  have "data ex_begin_response = ex_options"
    by (simp add: ex_begin_response_def)
  note credential_rejection_never_reported
      [where ax = "ex_transport (Fulfilled ex_begin_response) Pending"
         and beginurl = "''/login/begin/''" and payload = ex_payload
         and res = ex_begin_response and credentials_callback = ex_user_cancels
         and e = "JError ''NotAllowedError''" and success_callback = ex_success
         and failure_callback = ex_failure
         and complete_context_callback = login_complete_payload_callback
         and completeurl = "''/login/''"
         and begin_failure_code = WEBAUTHN_LOGIN_FAIL_BEGIN
         and complete_failure_code = WEBAUTHN_LOGIN_FAIL_COMPLETE, OF h1 h2]
  with h1 h2 \<open>data ex_begin_response = ex_options\<close>
  show ?thesis by simp
qed

text \<open>
  Claim C3, amended: when the begin request succeeds, the credential capability resolves
  and the complete request succeeds, \<open>success_callback\<close> is called exactly once, with the
  response of the complete endpoint; and \<open>failure_callback\<close> is never called, provided
  that \<open>success_callback\<close> does not throw (nor return a rejected promise). The proviso is
  not in the claim as written; it is needed for the second half because
  \<^verbatim>\<open>.catch(error => failure_callback(error, complete_failure_code))\<close> follows
  \<^verbatim>\<open>.then(res => success_callback(res))\<close> in the same chain and so also takes what
  \<open>success_callback\<close> throws.
\<close>

theorem success_path_calls_success_once:
  assumes "post ax 0 beginurl payload = Fulfilled res"
    and "credentials_callback (data res) = Fulfilled auth"
    and "complete_context_callback payload auth = Inr complete_payload"
    and "post ax 1 completeurl complete_payload = Fulfilled res'"
  shows "success_calls (trace (webauthn_internal payload success_callback failure_callback
                  credentials_callback complete_context_callback beginurl completeurl
                  begin_failure_code complete_failure_code ax)) = [res']
       \<and> ((\<forall>e. success_callback res' \<noteq> Rejected e) \<longrightarrow>
            failure_calls (trace (webauthn_internal payload success_callback
                  failure_callback credentials_callback complete_context_callback beginurl
                  completeurl begin_failure_code complete_failure_code ax)) = [])"
proof (cases "success_callback res'")
  case (Fulfilled v)
  with assms show ?thesis by (simp add: ceremony_defs)
next
  case (Rejected e)
  with assms show ?thesis
    by (cases "failure_callback e complete_failure_code") (simp_all add: ceremony_defs)
next
  case Pending
  with assms show ?thesis by (simp add: ceremony_defs)
qed

theorem success_path_calls_success_once_witness:
  "post ex_server_ok 0 ''/login/begin/'' ex_payload = Fulfilled ex_begin_response
   \<and> navigator_credentials_get (ex_globals ex_server_ok) (data ex_begin_response)
       = Fulfilled (Some ex_assertion)
   \<and> login_complete_payload_callback ex_payload (Some ex_assertion)
       = Inr ex_login_complete_payload
   \<and> post ex_server_ok 1 ''/login/'' ex_login_complete_payload
       = Fulfilled ex_complete_response
   \<and> ex_success ex_complete_response = Fulfilled JUndefined
   \<and> success_calls (trace (webauthn_internal ex_payload ex_success ex_failure
              (navigator_credentials_get (ex_globals ex_server_ok))
              login_complete_payload_callback ''/login/begin/'' ''/login/''
              WEBAUTHN_LOGIN_FAIL_BEGIN WEBAUTHN_LOGIN_FAIL_COMPLETE ex_server_ok))
       = [ex_complete_response]
   \<and> failure_calls (trace (webauthn_internal ex_payload ex_success ex_failure
              (navigator_credentials_get (ex_globals ex_server_ok))
              login_complete_payload_callback ''/login/begin/'' ''/login/''
              WEBAUTHN_LOGIN_FAIL_BEGIN WEBAUTHN_LOGIN_FAIL_COMPLETE ex_server_ok)) = []"
proof -
  have h1: "post ex_server_ok 0 ''/login/begin/'' ex_payload = Fulfilled ex_begin_response"
    by (simp add: ex_server_ok_def ex_transport_def)
  have h2: "navigator_credentials_get (ex_globals ex_server_ok) (data ex_begin_response)
      = Fulfilled (Some ex_assertion)"
    by (simp add: ex_globals_def ex_begin_response_def)
  have h3: "login_complete_payload_callback ex_payload (Some ex_assertion)
      = Inr ex_login_complete_payload"
    by (simp add: login_complete_payload_callback_def obj_define_def ex_payload_def
        ex_assertion_def ex_login_complete_payload_def)
  have h4: "post ex_server_ok 1 ''/login/'' ex_login_complete_payload
      = Fulfilled ex_complete_response"
    by (simp add: ex_server_ok_def ex_transport_def)
  have h5: "\<forall>e. ex_success ex_complete_response \<noteq> Rejected e"
    by (simp add: ex_success_def)
  have h6: "ex_success ex_complete_response = Fulfilled JUndefined"
    by (simp add: ex_success_def)
  note inst = success_path_calls_success_once
      [where ax = ex_server_ok and beginurl = "''/login/begin/''" and payload = ex_payload
         and res = ex_begin_response
         and credentials_callback = "navigator_credentials_get (ex_globals ex_server_ok)"
         and auth = "Some ex_assertion"
         and complete_context_callback = login_complete_payload_callback
         and complete_payload = ex_login_complete_payload and completeurl = "''/login/''"
         and res' = ex_complete_response and success_callback = ex_success
         and failure_callback = ex_failure
         and begin_failure_code = WEBAUTHN_LOGIN_FAIL_BEGIN
         and complete_failure_code = WEBAUTHN_LOGIN_FAIL_COMPLETE, OF h1 h2 h3 h4]
  note once = inst [THEN conjunct1]
  note never = inst [THEN conjunct2, THEN mp, OF h5]
  show ?thesis
    by (intro conjI) (rule h1 h2 h3 h4 h6 once never)+
qed

text \<open>
  The counterexample to C3 as stated: the login of alice, where both requests succeed and
  the browser returns an assertion, with a \<open>success_callback\<close> that throws a TypeError.
  \<open>failure_callback\<close> is called with that TypeError and \<open>WEBAUTHN_LOGIN_FAIL_COMPLETE\<close>.
\<close>

theorem success_callback_throw_counterexample:
  "post ex_server_ok 0 ''/api/auth/login/begin/'' ex_payload = Fulfilled ex_begin_response
   \<and> navigator_credentials_get (ex_globals ex_server_ok) (data ex_begin_response)
       = Fulfilled (Some ex_assertion)
   \<and> post ex_server_ok 1 ''/api/auth/login/'' ex_login_complete_payload
       = Fulfilled ex_complete_response
   \<and> trace (webauthn_login (ex_globals ex_server_ok) ex_payload ex_success_throws
              (Some ex_failure) None None None)
       = [Post ''/api/auth/login/begin/'' ex_payload,
          CredentialsCallback ex_options,
          Post ''/api/auth/login/'' ex_login_complete_payload,
          SuccessCallback ex_complete_response,
          FailureCallback (JError ''TypeError'') WEBAUTHN_LOGIN_FAIL_COMPLETE]
   \<and> failure_calls (trace (webauthn_login (ex_globals ex_server_ok) ex_payload
              ex_success_throws (Some ex_failure) None None None))
       = [(JError ''TypeError'', WEBAUTHN_LOGIN_FAIL_COMPLETE)]"
  by (simp add: ceremony_defs webauthn_login_def login_complete_payload_callback_def
      obj_define_def ex_server_ok_def ex_transport_def ex_globals_def ex_begin_response_def
      ex_payload_def ex_assertion_def ex_login_complete_payload_def ex_success_throws_def
      ex_failure_def)

text \<open>
  Claim C4: when the begin request succeeds, the credential capability resolves and the
  complete request is rejected, \<open>failure_callback\<close> is called exactly once, with the
  reason of the rejection and the complete-phase code, and \<open>success_callback\<close> is not
  called.
\<close>

theorem complete_failure_calls_failure_once:
  assumes "post ax 0 beginurl payload = Fulfilled res"
    and "credentials_callback (data res) = Fulfilled auth"
    and "complete_context_callback payload auth = Inr complete_payload"
    and "post ax 1 completeurl complete_payload = Rejected e"
  shows "failure_calls (trace (webauthn_internal payload success_callback failure_callback
                  credentials_callback complete_context_callback beginurl completeurl
                  begin_failure_code complete_failure_code ax))
           = [(e, complete_failure_code)]
       \<and> success_calls (trace (webauthn_internal payload success_callback failure_callback
                  credentials_callback complete_context_callback beginurl completeurl
                  begin_failure_code complete_failure_code ax)) = []"
  using assms
  by (cases "failure_callback e complete_failure_code") (simp_all add: ceremony_defs)

theorem complete_failure_calls_failure_once_witness:
  "post ex_complete_fails 0 ''/register/begin/'' ex_payload = Fulfilled ex_begin_response
   \<and> navigator_credentials_create (ex_globals ex_complete_fails) (data ex_begin_response)
       = Fulfilled (Some ex_attestation)
   \<and> register_complete_payload_callback ex_payload (Some ex_attestation)
       = Inr ex_register_complete_payload
   \<and> post ex_complete_fails 1 ''/register/'' ex_register_complete_payload
       = Rejected ex_http_error
   \<and> failure_calls (trace (webauthn_internal ex_payload ex_success ex_failure
              (navigator_credentials_create (ex_globals ex_complete_fails))
              register_complete_payload_callback ''/register/begin/'' ''/register/''
              WEBAUTHN_REGISTER_FAIL_BEGIN WEBAUTHN_REGISTER_FAIL_COMPLETE
              ex_complete_fails))
       = [(ex_http_error, WEBAUTHN_REGISTER_FAIL_COMPLETE)]
   \<and> success_calls (trace (webauthn_internal ex_payload ex_success ex_failure
              (navigator_credentials_create (ex_globals ex_complete_fails))
              register_complete_payload_callback ''/register/begin/'' ''/register/''
              WEBAUTHN_REGISTER_FAIL_BEGIN WEBAUTHN_REGISTER_FAIL_COMPLETE
              ex_complete_fails)) = []"
proof -
  have h1: "post ex_complete_fails 0 ''/register/begin/'' ex_payload
      = Fulfilled ex_begin_response"
    by (simp add: ex_complete_fails_def ex_transport_def)
  have h2: "navigator_credentials_create (ex_globals ex_complete_fails)
      (data ex_begin_response) = Fulfilled (Some ex_attestation)"
    by (simp add: ex_globals_def ex_begin_response_def)
  have h3: "register_complete_payload_callback ex_payload (Some ex_attestation)
      = Inr ex_register_complete_payload"
    by (simp add: register_complete_payload_callback_def obj_define_def ex_payload_def
        ex_attestation_def ex_register_complete_payload_def)
  have h4: "post ex_complete_fails 1 ''/register/'' ex_register_complete_payload
      = Rejected ex_http_error"
    by (simp add: ex_complete_fails_def ex_transport_def)
  note complete_failure_calls_failure_once
      [where ax = ex_complete_fails and beginurl = "''/register/begin/''"
         and payload = ex_payload and res = ex_begin_response
         and credentials_callback = "navigator_credentials_create (ex_globals ex_complete_fails)"
         and auth = "Some ex_attestation"
         and complete_context_callback = register_complete_payload_callback
         and complete_payload = ex_register_complete_payload
         and completeurl = "''/register/''" and e = ex_http_error
         and success_callback = ex_success and failure_callback = ex_failure
         and begin_failure_code = WEBAUTHN_REGISTER_FAIL_BEGIN
         and complete_failure_code = WEBAUTHN_REGISTER_FAIL_COMPLETE, OF h1 h2 h3 h4]
  with h1 h2 h3 h4 show ?thesis by simp
qed

text \<open>
  Claim C8 says that both entry points return the promise of the ceremony. Both wrappers
  return what \<open>webauthn_internal\<close> returns, and \<open>webauthn_internal\<close> builds the chain
  without returning it: for every argument, the caller of \<open>webauthn_login\<close> and of
  \<open>webauthn_register\<close> receives \<^verbatim>\<open>undefined\<close>.
\<close>

theorem entry_points_return_undefined:
  "returned (webauthn_login g payload success_callback failure_callback beginurl
              completeurl ax) = JUndefined
   \<and> returned (webauthn_register g payload success_callback failure_callback beginurl
              completeurl ax) = JUndefined
   \<and> returned (webauthn_internal payload success_callback failure_callback'
              credentials_callback complete_context_callback beginurl' completeurl'
              begin_failure_code complete_failure_code ax') = JUndefined"
  by (simp add: webauthn_login_def webauthn_register_def webauthn_internal_def Let_def)

subsection \<open>The complete payload\<close>

lemma register_payload_keys:
  "fst ` set (obj_define ''clientDataJSON'' c (obj_define ''attestationObject'' a payload))
     = fst ` set payload \<union> {''attestationObject'', ''clientDataJSON''}"
  unfolding keys_obj_define by blast

lemma register_payload_rest:
  "k \<notin> {''attestationObject'', ''clientDataJSON''} \<Longrightarrow>
   map_of (obj_define ''clientDataJSON'' c (obj_define ''attestationObject'' a payload)) k
     = map_of payload k"
  by (simp add: map_of_obj_define)

lemma login_payload_keys:
  "fst ` set (obj_define ''signature'' s (obj_define ''clientDataJSON'' c
      (obj_define ''authenticatorData'' a (obj_define ''credentialId'' i payload))))
     = fst ` set payload
         \<union> {''credentialId'', ''authenticatorData'', ''clientDataJSON'', ''signature''}"
  unfolding keys_obj_define by blast

lemma login_payload_rest:
  "k \<notin> {''credentialId'', ''authenticatorData'', ''clientDataJSON'', ''signature''} \<Longrightarrow>
   map_of (obj_define ''signature'' s (obj_define ''clientDataJSON'' c
      (obj_define ''authenticatorData'' a (obj_define ''credentialId'' i payload)))) k
     = map_of payload k"
  by (simp add: map_of_obj_define)

text \<open>
  Claim C5: for a credential that is not \<^verbatim>\<open>null\<close>, the complete payload of a registration
  has exactly the keys of the payload plus \<^verbatim>\<open>attestationObject\<close> and \<^verbatim>\<open>clientDataJSON\<close>,
  and the complete payload of a login exactly the keys of the payload plus
  \<^verbatim>\<open>credentialId\<close>, \<^verbatim>\<open>authenticatorData\<close>, \<^verbatim>\<open>clientDataJSON\<close> and \<^verbatim>\<open>signature\<close>. Each
  added key holds a \<^verbatim>\<open>Uint8Array\<close> over the octets of the matching member of the
  credential, and every other key holds the value it has in the payload (the merge is
  shallow).
\<close>

theorem complete_payload_keys:
  "(\<exists>cp. register_complete_payload_callback payload (Some att) = Inr cp
      \<and> fst ` set cp = fst ` set payload \<union> {''attestationObject'', ''clientDataJSON''}
      \<and> map_of cp ''attestationObject''
          = Some (JUint8Array (attestationObject (response att)))
      \<and> map_of cp ''clientDataJSON'' = Some (JUint8Array (clientDataJSON (response att)))
      \<and> (\<forall>k. k \<notin> {''attestationObject'', ''clientDataJSON''}
            \<longrightarrow> map_of cp k = map_of payload k))
   \<and> (\<exists>cp. login_complete_payload_callback payload (Some asn) = Inr cp
      \<and> fst ` set cp = fst ` set payload
            \<union> {''credentialId'', ''authenticatorData'', ''clientDataJSON'', ''signature''}
      \<and> map_of cp ''credentialId'' = Some (JUint8Array (rawId asn))
      \<and> map_of cp ''authenticatorData''
          = Some (JUint8Array (authenticatorData (response asn)))
      \<and> map_of cp ''clientDataJSON'' = Some (JUint8Array (clientDataJSON (response asn)))
      \<and> map_of cp ''signature'' = Some (JUint8Array (signature (response asn)))
      \<and> (\<forall>k. k \<notin> {''credentialId'', ''authenticatorData'', ''clientDataJSON'',
                     ''signature''}
            \<longrightarrow> map_of cp k = map_of payload k))"
proof (rule conjI)
  show "\<exists>cp. register_complete_payload_callback payload (Some att) = Inr cp
      \<and> fst ` set cp = fst ` set payload \<union> {''attestationObject'', ''clientDataJSON''}
      \<and> map_of cp ''attestationObject''
          = Some (JUint8Array (attestationObject (response att)))
      \<and> map_of cp ''clientDataJSON'' = Some (JUint8Array (clientDataJSON (response att)))
      \<and> (\<forall>k. k \<notin> {''attestationObject'', ''clientDataJSON''}
            \<longrightarrow> map_of cp k = map_of payload k)"
    unfolding register_complete_payload_callback_def option.case
  proof (intro exI conjI allI impI)
    fix k :: string
    assume "k \<notin> {''attestationObject'', ''clientDataJSON''}"
    then show "map_of (obj_define ''clientDataJSON''
                 (JUint8Array (clientDataJSON (response att)))
                 (obj_define ''attestationObject''
                    (JUint8Array (attestationObject (response att))) payload)) k
               = map_of payload k"
      by (rule register_payload_rest)
  qed (rule refl, rule register_payload_keys, simp_all add: map_of_obj_define)
next
  show "\<exists>cp. login_complete_payload_callback payload (Some asn) = Inr cp
      \<and> fst ` set cp = fst ` set payload
            \<union> {''credentialId'', ''authenticatorData'', ''clientDataJSON'', ''signature''}
      \<and> map_of cp ''credentialId'' = Some (JUint8Array (rawId asn))
      \<and> map_of cp ''authenticatorData''
          = Some (JUint8Array (authenticatorData (response asn)))
      \<and> map_of cp ''clientDataJSON'' = Some (JUint8Array (clientDataJSON (response asn)))
      \<and> map_of cp ''signature'' = Some (JUint8Array (signature (response asn)))
      \<and> (\<forall>k. k \<notin> {''credentialId'', ''authenticatorData'', ''clientDataJSON'',
                     ''signature''}
            \<longrightarrow> map_of cp k = map_of payload k)"
    unfolding login_complete_payload_callback_def option.case
  proof (intro exI conjI allI impI)
    fix k :: string
    assume "k \<notin> {''credentialId'', ''authenticatorData'', ''clientDataJSON'',
                   ''signature''}"
    then show "map_of (obj_define ''signature'' (JUint8Array (signature (response asn)))
                 (obj_define ''clientDataJSON''
                    (JUint8Array (clientDataJSON (response asn)))
                    (obj_define ''authenticatorData''
                       (JUint8Array (authenticatorData (response asn)))
                       (obj_define ''credentialId'' (JUint8Array (rawId asn)) payload)))) k
               = map_of payload k"
      by (rule login_payload_rest)
  qed (rule refl, rule login_payload_keys, simp_all add: map_of_obj_define)
qed

text \<open>
  At the payload of alice: the keys are \<^verbatim>\<open>username\<close> and the added ones, and
  \<^verbatim>\<open>username\<close>, which is not an added key, keeps its value.
\<close>

theorem complete_payload_keys_witness:
  "(\<exists>cp. register_complete_payload_callback ex_payload (Some ex_attestation) = Inr cp
      \<and> fst ` set cp = {''attestationObject'', ''clientDataJSON'', ''username''}
      \<and> map_of cp ''attestationObject'' = Some (JUint8Array [6])
      \<and> map_of cp ''username'' = Some (JStr ''alice''))
   \<and> (\<exists>cp. login_complete_payload_callback ex_payload (Some ex_assertion) = Inr cp
      \<and> fst ` set cp = {''credentialId'', ''authenticatorData'', ''clientDataJSON'',
            ''signature'', ''username''}
      \<and> map_of cp ''signature'' = Some (JUint8Array [9, 10])
      \<and> map_of cp ''username'' = Some (JStr ''alice''))"
proof -
  note inst = complete_payload_keys [of ex_payload ex_attestation ex_assertion]
  have not_added: "''username'' \<notin> {''attestationObject'', ''clientDataJSON''}"
    "''username'' \<notin> {''credentialId'', ''authenticatorData'', ''clientDataJSON'',
       ''signature''}"
    by simp_all
  have alice: "map_of ex_payload ''username'' = Some (JStr ''alice'')"
    by (simp add: ex_payload_def)
  have keys_reg: "fst ` set ex_payload \<union> {''attestationObject'', ''clientDataJSON''}
      = {''attestationObject'', ''clientDataJSON'', ''username''}"
    by (simp add: ex_payload_def)
  have keys_login: "fst ` set ex_payload
        \<union> {''credentialId'', ''authenticatorData'', ''clientDataJSON'', ''signature''}
      = {''credentialId'', ''authenticatorData'', ''clientDataJSON'', ''signature'',
         ''username''}"
    by (simp add: ex_payload_def)
  have members: "attestationObject (response ex_attestation) = [6]"
    "signature (response ex_assertion) = [9, 10]"
    by (simp_all add: ex_attestation_def ex_assertion_def)
  from inst [THEN conjunct1] obtain cp where
    r: "register_complete_payload_callback ex_payload (Some ex_attestation) = Inr cp
      \<and> fst ` set cp = fst ` set ex_payload \<union> {''attestationObject'', ''clientDataJSON''}
      \<and> map_of cp ''attestationObject''
          = Some (JUint8Array (attestationObject (response ex_attestation)))
      \<and> map_of cp ''clientDataJSON''
          = Some (JUint8Array (clientDataJSON (response ex_attestation)))
      \<and> (\<forall>k. k \<notin> {''attestationObject'', ''clientDataJSON''}
            \<longrightarrow> map_of cp k = map_of ex_payload k)" ..
  note r1 = r [THEN conjunct1]
  note r2 = r [THEN conjunct2, THEN conjunct1, unfolded keys_reg]
  note r3 = r [THEN conjunct2, THEN conjunct2, THEN conjunct1, unfolded members]
  note r5 = r [THEN conjunct2, THEN conjunct2, THEN conjunct2, THEN conjunct2,
      rule_format, OF not_added(1), unfolded alice]
  have reg:
    "\<exists>cp. register_complete_payload_callback ex_payload (Some ex_attestation) = Inr cp
      \<and> fst ` set cp = {''attestationObject'', ''clientDataJSON'', ''username''}
      \<and> map_of cp ''attestationObject'' = Some (JUint8Array [6])
      \<and> map_of cp ''username'' = Some (JStr ''alice'')"
    by (rule exI [of _ cp]) (intro conjI r1 r2 r3 r5)
  from inst [THEN conjunct2] obtain cq where
    l: "login_complete_payload_callback ex_payload (Some ex_assertion) = Inr cq
      \<and> fst ` set cq = fst ` set ex_payload
            \<union> {''credentialId'', ''authenticatorData'', ''clientDataJSON'', ''signature''}
      \<and> map_of cq ''credentialId'' = Some (JUint8Array (rawId ex_assertion))
      \<and> map_of cq ''authenticatorData''
          = Some (JUint8Array (authenticatorData (response ex_assertion)))
      \<and> map_of cq ''clientDataJSON''
          = Some (JUint8Array (clientDataJSON (response ex_assertion)))
      \<and> map_of cq ''signature'' = Some (JUint8Array (signature (response ex_assertion)))
      \<and> (\<forall>k. k \<notin> {''credentialId'', ''authenticatorData'', ''clientDataJSON'',
                     ''signature''}
            \<longrightarrow> map_of cq k = map_of ex_payload k)" ..
  note l1 = l [THEN conjunct1]
  note l2 = l [THEN conjunct2, THEN conjunct1, unfolded keys_login]
  note l6 = l [THEN conjunct2, THEN conjunct2, THEN conjunct2, THEN conjunct2,
      THEN conjunct2, THEN conjunct1, unfolded members]
  note l7 = l [THEN conjunct2, THEN conjunct2, THEN conjunct2, THEN conjunct2,
      THEN conjunct2, THEN conjunct2, rule_format, OF not_added(2), unfolded alice]
  have login:
    "\<exists>cp. login_complete_payload_callback ex_payload (Some ex_assertion) = Inr cp
      \<and> fst ` set cp = {''credentialId'', ''authenticatorData'', ''clientDataJSON'',
            ''signature'', ''username''}
      \<and> map_of cp ''signature'' = Some (JUint8Array [9, 10])
      \<and> map_of cp ''username'' = Some (JStr ''alice'')"
    by (rule exI [of _ cq]) (intro conjI l1 l2 l6 l7)
  from reg login show ?thesis by (rule conjI)
qed

subsection \<open>The interceptors\<close>

text \<open>
  Claim C6: a request whose \<^verbatim>\<open>content-type\<close> header is \<^verbatim>\<open>application/cbor\<close> comes back
  with its body replaced by the Buffer that \<^verbatim>\<open>encodeAsync\<close> resolves to and with
  \<^verbatim>\<open>responseType\<close> set to \<^verbatim>\<open>arraybuffer\<close>, every other field as it was; a request with any
  other \<^verbatim>\<open>content-type\<close> (or none) comes back unchanged in every field.
\<close>

theorem request_interceptor_encodes_iff_cbor:
  "(map_of (headers req) ''content-type'' = Some (JStr ''application/cbor'')
      \<longrightarrow> encodeAsync lib (data req) = Fulfilled b
      \<longrightarrow> cborRequestInterceptor lib req
            = Fulfilled (req\<lparr>data := JBuffer b, responseType := JStr ''arraybuffer''\<rparr>))
   \<and> (map_of (headers req) ''content-type'' \<noteq> Some (JStr ''application/cbor'')
      \<longrightarrow> cborRequestInterceptor lib req = Fulfilled req)"
  by (simp add: cborRequestInterceptor_def)

theorem request_interceptor_encodes_iff_cbor_witness:
  "map_of (headers ex_cbor_request) ''content-type'' = Some (JStr ''application/cbor'')
   \<and> encodeAsync ex_codec (data ex_cbor_request) = Fulfilled [5]
   \<and> cborRequestInterceptor ex_codec ex_cbor_request
       = Fulfilled (ex_cbor_request\<lparr>data := JBuffer [5], responseType := JStr ''arraybuffer''\<rparr>)
   \<and> map_of (headers ex_json_request) ''content-type'' = Some (JStr ''application/json'')
   \<and> cborRequestInterceptor ex_codec ex_json_request = Fulfilled ex_json_request"
proof -
  have h1: "map_of (headers ex_cbor_request) ''content-type''
      = Some (JStr ''application/cbor'')"
    by (simp add: ex_cbor_request_def)
  have h2: "encodeAsync ex_codec (data ex_cbor_request) = Fulfilled [5]"
    by (simp add: ex_codec_def ex_cbor_request_def)
  have h3: "map_of (headers ex_json_request) ''content-type''
      = Some (JStr ''application/json'')"
    by (simp add: ex_json_request_def)
  from h3 have h4: "map_of (headers ex_json_request) ''content-type''
      \<noteq> Some (JStr ''application/cbor'')"
    by simp
  note cbor = request_interceptor_encodes_iff_cbor
      [of ex_cbor_request ex_codec "[5]", THEN conjunct1, rule_format, OF h1 h2]
  note json = request_interceptor_encodes_iff_cbor
      [of ex_json_request ex_codec "[]", THEN conjunct2, rule_format, OF h4]
  show ?thesis
    by (intro conjI) (rule h1 h2 h3 cbor json)+
qed

text \<open>
  Claim C7: a response whose \<^verbatim>\<open>content-type\<close> header is \<^verbatim>\<open>application/cbor\<close> and whose
  body decodes to one or more items comes back with \<^verbatim>\<open>data\<close> replaced by the first item
  alone, every other field as it was; a response with any other \<^verbatim>\<open>content-type\<close> comes
  back unchanged in every field.
\<close>

theorem response_interceptor_takes_first_item:
  "(map_of (headers resp) ''content-type'' = Some (JStr ''application/cbor'')
      \<longrightarrow> Buffer_from lib (data resp) = Inr buf
      \<longrightarrow> decodeAll lib buf = Fulfilled (item # items)
      \<longrightarrow> cborResponseInterceptor lib resp = Fulfilled (resp\<lparr>data := item\<rparr>))
   \<and> (map_of (headers resp) ''content-type'' \<noteq> Some (JStr ''application/cbor'')
      \<longrightarrow> cborResponseInterceptor lib resp = Fulfilled resp)"
  by (simp add: cborResponseInterceptor_def)

theorem response_interceptor_takes_first_item_witness:
  "map_of (headers (ex_cbor_response [5, 7, 9])) ''content-type''
     = Some (JStr ''application/cbor'')
   \<and> Buffer_from ex_codec (data (ex_cbor_response [5, 7, 9])) = Inr [5, 7, 9]
   \<and> decodeAll ex_codec [5, 7, 9] = Fulfilled [JNum 5, JNum 7, JNum 9]
   \<and> cborResponseInterceptor ex_codec (ex_cbor_response [5, 7, 9])
       = Fulfilled ((ex_cbor_response [5, 7, 9])\<lparr>data := JNum 5\<rparr>)
   \<and> map_of (headers ex_json_response) ''content-type'' = Some (JStr ''application/json'')
   \<and> cborResponseInterceptor ex_codec ex_json_response = Fulfilled ex_json_response"
proof -
  have h1: "map_of (headers (ex_cbor_response [5, 7, 9])) ''content-type''
      = Some (JStr ''application/cbor'')"
    by (simp add: ex_cbor_response_def)
  have h2: "Buffer_from ex_codec (data (ex_cbor_response [5, 7, 9])) = Inr [5, 7, 9]"
    by (simp add: ex_codec_def ex_cbor_response_def)
  have h3: "decodeAll ex_codec [5, 7, 9] = Fulfilled [JNum 5, JNum 7, JNum 9]"
    by (simp add: ex_codec_def)
  have h4: "map_of (headers ex_json_response) ''content-type''
      = Some (JStr ''application/json'')"
    by (simp add: ex_json_response_def)
  from h4 have h5: "map_of (headers ex_json_response) ''content-type''
      \<noteq> Some (JStr ''application/cbor'')"
    by simp
  note cbor = response_interceptor_takes_first_item
      [of "ex_cbor_response [5, 7, 9]" ex_codec "[5, 7, 9]" "JNum 5" "[JNum 7, JNum 9]",
        THEN conjunct1, rule_format, OF h1 h2 h3]
  note json = response_interceptor_takes_first_item
      [of ex_json_response ex_codec "[]" JNull "[]", THEN conjunct2, rule_format, OF h5]
  show ?thesis
    by (intro conjI) (rule h1 h2 h3 h4 cbor json)+
qed

text \<open>
  Claim C10: a response whose \<^verbatim>\<open>content-type\<close> header is \<^verbatim>\<open>application/cbor\<close> and whose
  body decodes to no item at all is not an error: the interceptor resolves to the
  response with \<^verbatim>\<open>data\<close> set to \<^verbatim>\<open>undefined\<close>.
\<close>

theorem response_interceptor_no_items_undefined:
  assumes "map_of (headers resp) ''content-type'' = Some (JStr ''application/cbor'')"
    and "Buffer_from lib (data resp) = Inr buf"
    and "decodeAll lib buf = Fulfilled []"
  shows "cborResponseInterceptor lib resp = Fulfilled (resp\<lparr>data := JUndefined\<rparr>)"
  using assms by (simp add: cborResponseInterceptor_def)

theorem response_interceptor_no_items_undefined_witness:
  "map_of (headers (ex_cbor_response [])) ''content-type'' = Some (JStr ''application/cbor'')
   \<and> Buffer_from ex_codec (data (ex_cbor_response [])) = Inr []
   \<and> decodeAll ex_codec [] = Fulfilled []
   \<and> cborResponseInterceptor ex_codec (ex_cbor_response [])
       = Fulfilled ((ex_cbor_response [])\<lparr>data := JUndefined\<rparr>)"
proof -
  have h1: "map_of (headers (ex_cbor_response [])) ''content-type''
      = Some (JStr ''application/cbor'')"
    by (simp add: ex_cbor_response_def)
  have h2: "Buffer_from ex_codec (data (ex_cbor_response [])) = Inr []"
    by (simp add: ex_codec_def ex_cbor_response_def)
  have h3: "decodeAll ex_codec [] = Fulfilled []"
    by (simp add: ex_codec_def)
  note undef = response_interceptor_no_items_undefined [OF h1 h2 h3]
  show ?thesis
    by (intro conjI) (rule h1 h2 h3 undef)+
qed




end
